theory Spec2Isabelle
  imports Complex_Main "HOL-Library.Product_Lexorder"
begin

section \<open>The D2Q9 lattice solver of funfluid (lbm/core/lattice.py)\<close>

text \<open>
  Conventions of the embedding. Python's unbounded integers are \<open>int\<close> (\<open>nat\<close> for
  array extents and direction indices, which numpy refuses when negative). A float64 is
  modelled by the real number it stands for: rounding is not part of the model, and a
  division whose divisor is zero, which numpy answers with inf or nan and a warning, has
  the value \<open>None\<close>. A numpy array is the list of its rows. Every exception the source
  can raise is a value of \<open>error\<close>, returned as \<open>Inl\<close>.
\<close>

subsection \<open>Errors\<close>

text \<open>
  \<open>ValueError\<close>, \<open>ZeroDivisionError\<close> and \<open>IndexError\<close> are the exceptions the source can
  raise. \<open>AllocationError\<close> stands for the failure of \<open>np.zeros\<close> or \<open>np.ones\<close> to provide
  an array (numpy's MemoryError, or the error it raises for an array beyond the range
  of its index type). \<open>GridConfigError\<close> is the error kind of the specification; the
  source has no such class and no statement that raises it.
\<close>

datatype error = ValueError | ZeroDivisionError | IndexError | AllocationError | GridConfigError

subsection \<open>Lattice constants (BaseDefine.__init__, lines 85 to 100)\<close>

text \<open>\<open>self.c\<close>: the nine lattice velocities, one row \<open>[c_x, c_y]\<close> per direction.\<close>

definition c :: "int list list" where
  "c = [[0, 0], [1, 0], [-1, 0], [0, 1], [0, -1], [1, 1], [-1, -1], [-1, 1], [1, -1]]"

text \<open>\<open>np.linalg.norm\<close> of an integer vector: the Euclidean norm.\<close>

definition linalg_norm :: "int list \<Rightarrow> real" where
  "linalg_norm v = sqrt (real_of_int (sum_list (map (\<lambda>x. x * x) v)))"

definition idx_card :: "bool list" where
  "idx_card = map (\<lambda>ci. linalg_norm ci < 11 / 10) c"

definition idx_extra_card :: "bool list" where
  "idx_extra_card = map (\<lambda>ci. linalg_norm ci > 11 / 10) c"

text \<open>\<open>a[mask] = v\<close> for a boolean mask of the length of \<open>a\<close>.\<close>

definition mask_assign :: "bool list \<Rightarrow> real \<Rightarrow> real list \<Rightarrow> real list" where
  "mask_assign msk v a = map (\<lambda>(m, x). if m then v else x) (zip msk a)"

text \<open>
  \<open>self.w\<close>: ones, then 1/9 where the norm is below 1.1, then 1/36 where it is above,
  then 4/9 at index 0 (lines 94 to 97).
\<close>

definition w :: "real list" where
  "w = (mask_assign idx_extra_card (1 / 36)
          (mask_assign idx_card (1 / 9) (replicate 9 1)))[0 := 4 / 9]"

text \<open>\<open>self.ns\<close>: the index of the opposite direction, used for bounce-back.\<close>

definition ns :: "nat list" where
  "ns = [0, 2, 1, 4, 3, 6, 5, 8, 7]"

subsection \<open>The solver state (classes Obstacle, BaseDefine, Condition, Lattice)\<close>

text \<open>
  Modelled from the spec: the class \<open>Buff\<close> of funfluid.lbm.core.buff is not among the
  sources. The solver reads one attribute of it, the boolean \<open>obs_cv\<close>, the "converged"
  flag of the specification's ConvergenceBuffer, which is clear in a new buffer.
\<close>

record Buff =
  obs_cv :: bool

text \<open>
  \<open>class Obstacle\<close> (lines 13 to 23). A row \<open>[ii, jj, qb]\<close> of the integer array
  \<open>boundary\<close> is a triple; \<open>ibb\<close> is a float array.
\<close>

record Obstacle =
  polygon :: "(real \<times> real) list"
  area :: real
  boundary :: "(int \<times> int \<times> nat) list"
  ibb :: "real option list"
  tag :: int

text \<open>
  The attributes of a \<open>Lattice\<close> object that the numerical core reads or writes. The
  tag grid \<open>lattice\<close> is a float array which only ever holds 0 and the integer tags, so
  its cells are \<open>int\<close>. Left out: the name, the plotting and logging attributes, the
  output directories, the physical targets and the wall profiles.
\<close>

record Lattice =
  x_min :: real
  x_max :: real
  y_min :: real
  y_max :: real
  nx :: nat
  ny :: nat
  tau_lbm :: real
  dx :: real
  dt :: real
  Cx :: real
  Ct :: real
  Cr :: real
  Cn :: real
  Cu :: real
  Cf :: real
  IBB :: bool
  stop :: string
  it_max :: int
  lx :: int
  ly :: int
  tau_p_lbm :: real
  tau_m_lbm :: real
  om_p_lbm :: real
  om_m_lbm :: real
  om_lbm :: real
  g :: "real list list list"
  g_eq :: "real list list list"
  g_up :: "real list list list"
  lattice :: "int list list"
  rho :: "real list list"
  u :: "real option list list list"
  obstacles :: "Obstacle list"
  it :: int
  compute :: bool
  drag_buff :: Buff
  lift_buff :: Buff

subsection \<open>Construction (BaseDefine.__init__, lines 27 to 154)\<close>

text \<open>
  The keyword arguments: \<open>None\<close> is an absent key, for which \<open>kwargs.get\<close> gives the
  default. The model covers the calls that leave the numerical parameters \<open>tau_lbm\<close>,
  \<open>dx\<close>, \<open>dt\<close>, \<open>Cx\<close>, \<open>Ct\<close>, \<open>Cr\<close>, \<open>Cn\<close>, \<open>Cu\<close> and \<open>Cf\<close> at their defaults: with other
  values, whether the divisions and the power of lines 41 to 43 and 80 to 83 raise
  depends on the rounding and the overflow of float64, which a model of floats by reals
  does not decide. The defaults are 1.0, and every float the constructor computes from
  them (\<open>1.0 ** 2 / 1.0\<close>, \<open>0.25 / (1.0 - 0.5) + 0.5\<close>, \<open>1.0 / 1.0\<close>) is exact. The domain
  bounds are stored as they are given.
\<close>

record kwargs =
  kw_x_min :: "real option"
  kw_x_max :: "real option"
  kw_y_min :: "real option"
  kw_y_max :: "real option"
  kw_nx :: "int option"
  kw_ny :: "int option"
  kw_IBB :: "bool option"
  kw_stop :: "string option"
  kw_it_max :: "int option"

definition no_kwargs :: kwargs where
  "no_kwargs = \<lparr>kw_x_min = None, kw_x_max = None, kw_y_min = None, kw_y_max = None,
     kw_nx = None, kw_ny = None, kw_IBB = None, kw_stop = None, kw_it_max = None\<rparr>"

definition kwargs_get :: "'a option \<Rightarrow> 'a \<Rightarrow> 'a" where
  "kwargs_get v d = (case v of None \<Rightarrow> d | Some x \<Rightarrow> x)"

text \<open>\<open>np.zeros((k, n, m))\<close> and \<open>np.zeros((n, m))\<close>, and likewise with another fill value.\<close>

definition full2 :: "nat \<Rightarrow> nat \<Rightarrow> 'a \<Rightarrow> 'a list list" where
  "full2 n m v = replicate n (replicate m v)"

definition full3 :: "nat \<Rightarrow> nat \<Rightarrow> nat \<Rightarrow> 'a \<Rightarrow> 'a list list list" where
  "full3 k n m v = replicate k (full2 n m v)"

text \<open>
  The float64 cells of the arrays the constructor allocates: \<open>g\<close>, \<open>g_eq\<close> and \<open>g_up\<close>
  (9 nx ny each), the wall profiles \<open>u_left\<close>, \<open>u_right\<close> (2 ny each), \<open>u_top\<close>, \<open>u_bot\<close>
  (2 nx each) and \<open>rho_right\<close> (ny), and \<open>lattice\<close>, \<open>rho\<close> (nx ny each) and \<open>u\<close> (2 nx ny).
\<close>

definition cells_needed :: "nat \<Rightarrow> nat \<Rightarrow> nat" where
  "cells_needed n m = 31 * n * m + 5 * m + 4 * n"

text \<open>
  The constructor, in the order of the source. \<open>capacity\<close> is the number of float64
  cells the platform can provide to this process: it is not an argument of the source
  but a fact of the machine it runs on, and no array of more than \<open>2 ^ 60\<close> cells (8
  bytes each) is in the range of numpy's 64-bit index type. The divisions of lines 41
  to 43 and 80 to 83 raise ZeroDivisionError on a zero divisor; at the defaults no
  divisor is zero. \<open>np.zeros\<close> raises ValueError for a negative extent (line 103). No
  statement looks at the size of \<open>nx\<close> or \<open>ny\<close> otherwise. The output directories, the
  log lines and the inside of the two \<open>Buff\<close> objects are effects outside the model.
\<close>

definition BaseDefine_init :: "nat \<Rightarrow> kwargs \<Rightarrow> error + Lattice" where
  "BaseDefine_init capacity kw =
    (let xmin = kwargs_get (kw_x_min kw) 0;
         xmax = kwargs_get (kw_x_max kw) 1;
         ymin = kwargs_get (kw_y_min kw) 0;
         ymax = kwargs_get (kw_y_max kw) 1;
         n = kwargs_get (kw_nx kw) 100;
         m = kwargs_get (kw_ny kw) n;
         tau = (1::real);
         h = (1::real);
         k = (1::real);
         cx = h;
         ct = k;
         cr = (1::real)
     in if ct = 0 then Inl ZeroDivisionError
        else
          let cn = cx ^ 2 / ct;
              cu = cx / ct;
              cf = cr * cx ^ 2 / ct;
              tau_p = tau;
              lambda_trt = 1 / 4
          in if tau_p - 1 / 2 = 0 then Inl ZeroDivisionError
             else
               let tau_m = lambda_trt / (tau_p - 1 / 2) + 1 / 2
               in if tau_p = 0 \<or> tau_m = 0 \<or> tau = 0 then Inl ZeroDivisionError
                  else if n < 0 \<or> m < 0 then Inl ValueError
                  else if cells_needed (nat n) (nat m) > min capacity (2 ^ 60)
                  then Inl AllocationError
                  else Inr \<lparr>x_min = xmin, x_max = xmax, y_min = ymin, y_max = ymax,
                     nx = nat n, ny = nat m, tau_lbm = tau, dx = h, dt = k,
                     Cx = cx, Ct = ct, Cr = cr, Cn = cn, Cu = cu, Cf = cf,
                     IBB = kwargs_get (kw_IBB kw) False,
                     stop = kwargs_get (kw_stop kw) ''it'',
                     it_max = kwargs_get (kw_it_max kw) 1000,
                     lx = n - 1, ly = m - 1,
                     tau_p_lbm = tau_p, tau_m_lbm = tau_m,
                     om_p_lbm = 1 / tau_p, om_m_lbm = 1 / tau_m, om_lbm = 1 / tau,
                     g = full3 9 (nat n) (nat m) 0,
                     g_eq = full3 9 (nat n) (nat m) 0,
                     g_up = full3 9 (nat n) (nat m) 0,
                     lattice = full2 (nat n) (nat m) 0,
                     rho = full2 (nat n) (nat m) 1,
                     u = full3 2 (nat n) (nat m) (Some 0),
                     obstacles = [],
                     it = 0, compute = False,
                     drag_buff = \<lparr>obs_cv = False\<rparr>, lift_buff = \<lparr>obs_cv = False\<rparr>\<rparr>)"

subsection \<open>The stop check (Lattice.check_stop, lines 612 to 627)\<close>

text \<open>
  The two \<open>if\<close> statements in sequence, then the increment of \<open>it\<close>; the returned
  value is the flag \<open>compute\<close>, which no statement of the class clears after the
  constructor.
\<close>

definition check_stop :: "Lattice \<Rightarrow> Lattice \<times> bool" where
  "check_stop s =
    (let s1 = (if stop s = ''it''
               then (if it s > it_max s then s\<lparr>compute := True\<rparr> else s)
               else s);
         s2 = (if stop s1 = ''obs''
               then (if obs_cv (drag_buff s1) \<and> obs_cv (lift_buff s1)
                     then s1\<lparr>compute := True\<rparr> else s1)
               else s1);
         s3 = s2\<lparr>it := it s2 + 1\<rparr>
     in (s3, compute s3))"

text \<open>
  The results of a run of later calls: before each call, the rest of the time step
  (one function per call) has changed the state.
\<close>

fun later_calls :: "Lattice \<Rightarrow> (Lattice \<Rightarrow> Lattice) list \<Rightarrow> bool list" where
  "later_calls s [] = []"
| "later_calls s (f # fs) =
     (let (s', r) = check_stop (f s) in r # later_calls s' fs)"

subsection \<open>The macroscopic update (BaseDefine.macro, lines 156 to 165)\<close>

text \<open>
  The shape of a two- and a three-dimensional array. The constructor allocates \<open>g\<close> as
  \<open>(9, nx, ny)\<close>, \<open>rho\<close> and \<open>lattice\<close> as \<open>(nx, ny)\<close> and \<open>u\<close> as \<open>(2, nx, ny)\<close>, and no
  statement resizes them.
\<close>

definition shape2 :: "nat \<Rightarrow> nat \<Rightarrow> 'a list list \<Rightarrow> bool" where
  "shape2 n m a = (length a = n \<and> list_all (\<lambda>r. length r = m) a)"

definition shape3 :: "nat \<Rightarrow> nat \<Rightarrow> nat \<Rightarrow> 'a list list list \<Rightarrow> bool" where
  "shape3 k n m a = (length a = k \<and> list_all (shape2 n m) a)"

definition wf_shapes :: "Lattice \<Rightarrow> bool" where
  "wf_shapes s =
    (shape3 9 (nx s) (ny s) (g s) \<and> shape2 (nx s) (ny s) (rho s)
     \<and> shape3 2 (nx s) (ny s) (u s) \<and> shape2 (nx s) (ny s) (lattice s))"

text \<open>
  \<open>np.sum(a, axis=0)\<close>: the element-wise sum of the planes \<open>a[0], a[1], ...\<close> of a
  three-dimensional array (the first axis of \<open>g\<close> has length 9, never 0).
\<close>

definition plane_add :: "real list list \<Rightarrow> real list list \<Rightarrow> real list list" where
  "plane_add a b = map (\<lambda>(ra, rb). map (\<lambda>(x, y). x + y) (zip ra rb)) (zip a b)"

fun np_sum_axis0 :: "real list list list \<Rightarrow> real list list" where
  "np_sum_axis0 [] = []"
| "np_sum_axis0 (p # ps) = foldl plane_add p ps"

text \<open>
  \<open>np.tensordot(v, a, axes=(0, 0))\<close> for a vector \<open>v\<close>: the sum over \<open>q\<close> of the planes
  \<open>v[q] * a[q]\<close>.
\<close>

definition plane_scale :: "real \<Rightarrow> real list list \<Rightarrow> real list list" where
  "plane_scale a p = map (map (\<lambda>x. a * x)) p"

definition tensordot :: "real list \<Rightarrow> real list list list \<Rightarrow> real list list" where
  "tensordot v a = np_sum_axis0 (map (\<lambda>(vq, p). plane_scale vq p) (zip v a))"

text \<open>
  The element-wise division of two float arrays. Where the divisor is zero numpy stores
  inf or nan and goes on: the cell's value is \<open>None\<close>.
\<close>

definition np_div :: "real \<Rightarrow> real \<Rightarrow> real option" where
  "np_div x y = (if y = 0 then None else Some (x / y))"

definition plane_div :: "real list list \<Rightarrow> real list list \<Rightarrow> real option list list" where
  "plane_div a b = map (\<lambda>(ra, rb). map (\<lambda>(x, y). np_div x y) (zip ra rb)) (zip a b)"

text \<open>
  \<open>macro\<close>: the density is stored first, and both velocity components are divided by
  the density just stored. All three statements work on whole arrays: no statement
  reads the tag grid \<open>lattice\<close>.
\<close>

definition macro :: "Lattice \<Rightarrow> Lattice" where
  "macro s =
    (let s1 = s\<lparr>rho := np_sum_axis0 (g s)\<rparr>;
         s2 = s1\<lparr>u := (u s1)[0 := plane_div
                 (tensordot (map (\<lambda>cq. real_of_int (cq ! 0)) c) (g s1)) (rho s1)]\<rparr>;
         s3 = s2\<lparr>u := (u s2)[1 := plane_div
                 (tensordot (map (\<lambda>cq. real_of_int (cq ! 1)) c) (g s2)) (rho s2)]\<rparr>
     in s3)"

text \<open>
  Two states agree on the fluid cells: their \<open>g\<close> arrays have the same nine values at
  every cell whose tag is 0.
\<close>

definition fluid_agree :: "Lattice \<Rightarrow> Lattice \<Rightarrow> bool" where
  "fluid_agree s t =
    list_all (\<lambda>i. list_all (\<lambda>j. lattice s ! i ! j = 0 \<longrightarrow>
        list_all (\<lambda>q. g s ! q ! i ! j = g t ! q ! i ! j) [0..<9]) [0..<ny s]) [0..<nx s]"

subsection \<open>Obstacles (Lattice.add_obstacle, lattice_coords, is_inside; lines 361 to 481)\<close>

text \<open>
  \<open>lattice_coords\<close>: the physical coordinates of the node \<open>(i, j)\<close>. Both spacings are
  computed first, by Python divisions, which raise when \<open>nx = 1\<close> or \<open>ny = 1\<close>. The
  arguments are integers, not only indices of the grid: the loop over the boundary
  nodes calls it with whatever the boundary array holds.
\<close>

definition lattice_coords :: "Lattice \<Rightarrow> int \<Rightarrow> int \<Rightarrow> error + (real \<times> real)" where
  "lattice_coords s i j =
    (if int (nx s) - 1 = 0 then Inl ZeroDivisionError
     else if int (ny s) - 1 = 0 then Inl ZeroDivisionError
     else
       let ddx = (x_max s - x_min s) / real_of_int (int (nx s) - 1);
           ddy = (y_max s - y_min s) / real_of_int (int (ny s) - 1)
       in Inr (x_min s + real_of_int i * ddx, y_min s + real_of_int j * ddy))"

text \<open>
  \<open>is_inside\<close>: the loop over the vertices \<open>poly[i]\<close>, with \<open>poly[j]\<close> the vertex before
  it, starting from the last one; \<open>odd_nodes\<close> is toggled at each crossing. The slope is
  only computed where the two ordinates differ, so its division is defined.
\<close>

fun is_inside_loop ::
  "(real \<times> real) list \<Rightarrow> real \<times> real \<Rightarrow> real \<times> real \<Rightarrow> bool \<Rightarrow> bool" where
  "is_inside_loop [] vj pt odd_nodes = odd_nodes"
| "is_inside_loop (vi # rest) vj pt odd_nodes =
    is_inside_loop rest vi pt
      (if ((snd vi < snd pt \<and> snd pt \<le> snd vj) \<or> (snd vj < snd pt \<and> snd pt \<le> snd vi))
          \<and> (fst vi < fst pt \<or> fst vj < fst pt)
       then
         (let slope = (fst vj - fst vi) / (snd vj - snd vi)
          in if fst vi + (snd pt - snd vi) * slope < fst pt then \<not> odd_nodes else odd_nodes)
       else odd_nodes)"

definition is_inside :: "(real \<times> real) list \<Rightarrow> real \<times> real \<Rightarrow> bool" where
  "is_inside poly pt = (if poly = [] then False else is_inside_loop poly (last poly) pt False)"

text \<open>
  The even-odd rule in the words of the specification, to compare \<open>is_inside\<close> with.
  The edges of a polygon pair each vertex with the vertex before it, the first with the
  last. The horizontal ray from the point towards smaller abscissae crosses an edge
  when the ordinate of the point is in the half-open interval of the edge's ordinates
  (\<open>y_i < y \<le> y_j\<close> or the reverse) and the edge meets the ray's line at an abscissa
  smaller than the point's. A point is inside when the number of edges crossed is odd.
\<close>

fun edges_from :: "real \<times> real \<Rightarrow> (real \<times> real) list \<Rightarrow> ((real \<times> real) \<times> (real \<times> real)) list" where
  "edges_from vj [] = []"
| "edges_from vj (vi # rest) = (vi, vj) # edges_from vi rest"

definition polygon_edges :: "(real \<times> real) list \<Rightarrow> ((real \<times> real) \<times> (real \<times> real)) list" where
  "polygon_edges poly = (if poly = [] then [] else edges_from (last poly) poly)"

definition ray_crosses :: "real \<times> real \<Rightarrow> (real \<times> real) \<times> (real \<times> real) \<Rightarrow> bool" where
  "ray_crosses pt e =
    (case e of ((xi, yi), (xj, yj)) \<Rightarrow>
       ((yi < snd pt \<and> snd pt \<le> yj) \<or> (yj < snd pt \<and> snd pt \<le> yi))
       \<and> xi + (snd pt - yi) * (xj - xi) / (yj - yi) < fst pt)"

definition even_odd_rule :: "(real \<times> real) list \<Rightarrow> real \<times> real \<Rightarrow> bool" where
  "even_odd_rule poly pt = odd (length (filter (ray_crosses pt) (polygon_edges poly)))"

text \<open>
  \<open>np.amin\<close> and \<open>np.amax\<close> raise ValueError on an empty array; \<open>poly_bnds\<close> is the
  bounding box \<open>[x_min, x_max, y_min, y_max]\<close> of the polygon (lines 367 to 371).
\<close>

fun np_amin :: "real list \<Rightarrow> error + real" where
  "np_amin [] = Inl ValueError"
| "np_amin (x # xs) = Inr (foldl min x xs)"

fun np_amax :: "real list \<Rightarrow> error + real" where
  "np_amax [] = Inl ValueError"
| "np_amax (x # xs) = Inr (foldl max x xs)"

definition poly_bnds :: "(real \<times> real) list \<Rightarrow> error + (real \<times> real \<times> real \<times> real)" where
  "poly_bnds poly =
    (case np_amin (map fst poly) of Inl e \<Rightarrow> Inl e | Inr b0 \<Rightarrow>
     case np_amax (map fst poly) of Inl e \<Rightarrow> Inl e | Inr b1 \<Rightarrow>
     case np_amin (map snd poly) of Inl e \<Rightarrow> Inl e | Inr b2 \<Rightarrow>
     case np_amax (map snd poly) of Inl e \<Rightarrow> Inl e | Inr b3 \<Rightarrow> Inr (b0, b1, b2, b3))"

text \<open>
  numpy's index rule along one axis of extent \<open>n\<close>: an index from \<open>0\<close> to \<open>n - 1\<close> is
  itself, an index from \<open>-n\<close> to \<open>-1\<close> counts from the end, any other raises
  IndexError. \<open>lat_get\<close> and \<open>lat_set\<close> are \<open>lattice[ii, jj]\<close> read and written.
\<close>

definition np_index :: "nat \<Rightarrow> int \<Rightarrow> error + nat" where
  "np_index n k =
    (if 0 \<le> k \<and> k < int n then Inr (nat k)
     else if k < 0 \<and> - int n \<le> k then Inr (nat (k + int n))
     else Inl IndexError)"

definition lat_get :: "int list list \<Rightarrow> int \<Rightarrow> int \<Rightarrow> error + int" where
  "lat_get lat ii jj =
    (case np_index (length lat) ii of Inl e \<Rightarrow> Inl e | Inr a \<Rightarrow>
     case np_index (length (lat ! a)) jj of Inl e \<Rightarrow> Inl e | Inr b \<Rightarrow> Inr (lat ! a ! b))"

definition lat_set :: "int list list \<Rightarrow> int \<Rightarrow> int \<Rightarrow> int \<Rightarrow> error + int list list" where
  "lat_set lat ii jj v =
    (case np_index (length lat) ii of Inl e \<Rightarrow> Inl e | Inr a \<Rightarrow>
     case np_index (length (lat ! a)) jj of Inl e \<Rightarrow> Inl e | Inr b \<Rightarrow>
       Inr (lat[a := (lat ! a)[b := v]]))"

text \<open>
  The fill loop (lines 379 to 391) over the cells \<open>(i, j)\<close>, \<open>i\<close> outermost: a node
  strictly inside the bounding box and inside the polygon is tagged and appended to
  \<open>obstacle\<close>.
\<close>

fun fill_lattice ::
  "Lattice \<Rightarrow> (real \<times> real) list \<Rightarrow> real \<times> real \<times> real \<times> real \<Rightarrow> int \<Rightarrow> (nat \<times> nat) list
   \<Rightarrow> int list list \<Rightarrow> (int \<times> int) list \<Rightarrow> error + (int list list \<times> (int \<times> int) list)" where
  "fill_lattice s poly bnds tg [] lat obstacle = Inr (lat, obstacle)"
| "fill_lattice s poly bnds tg ((i, j) # cells) lat obstacle =
    (case lattice_coords s (int i) (int j) of Inl e \<Rightarrow> Inl e | Inr pt \<Rightarrow>
     case bnds of (b0, b1, b2, b3) \<Rightarrow>
       if fst pt > b0 \<and> fst pt < b1 \<and> snd pt > b2 \<and> snd pt < b3
       then
         (if is_inside poly pt
          then (case lat_set lat (int i) (int j) tg of Inl e \<Rightarrow> Inl e | Inr lat' \<Rightarrow>
                  fill_lattice s poly bnds tg cells lat' (obstacle @ [(int i, int j)]))
          else fill_lattice s poly bnds tg cells lat obstacle)
       else fill_lattice s poly bnds tg cells lat obstacle)"

text \<open>
  The boundary loop (lines 397 to 409): for each cell of \<open>obstacle\<close> and each direction
  \<open>q\<close> from 1 to 8, the tag grid is read at \<open>(i + c_x[q], j + c_y[q])\<close>, with no test of
  the indices, and the row \<open>[ii, jj, ns[q]]\<close> is appended where the tag is zero.
\<close>

fun boundary_dirs ::
  "int list list \<Rightarrow> int \<Rightarrow> int \<Rightarrow> nat list \<Rightarrow> (int \<times> int \<times> nat) list
   \<Rightarrow> error + (int \<times> int \<times> nat) list" where
  "boundary_dirs lat i j [] bnd = Inr bnd"
| "boundary_dirs lat i j (q # qs) bnd =
    (let qb = ns ! q;
         cx = c ! q ! 0;
         cy = c ! q ! 1;
         ii = i + cx;
         jj = j + cy
     in case lat_get lat ii jj of Inl e \<Rightarrow> Inl e | Inr v \<Rightarrow>
          boundary_dirs lat i j qs (if v = 0 then bnd @ [(ii, jj, qb)] else bnd))"

fun build_boundary ::
  "int list list \<Rightarrow> (int \<times> int) list \<Rightarrow> (int \<times> int \<times> nat) list
   \<Rightarrow> error + (int \<times> int \<times> nat) list" where
  "build_boundary lat [] bnd = Inr bnd"
| "build_boundary lat ((i, j) # obstacle) bnd =
    (case boundary_dirs lat i j [1..<9] bnd of Inl e \<Rightarrow> Inl e | Inr bnd' \<Rightarrow>
       build_boundary lat obstacle bnd')"

text \<open>\<open>np.unique(boundary, axis=0)\<close>: the distinct rows, in lexicographic order.\<close>

definition np_unique :: "(int \<times> int \<times> nat) list \<Rightarrow> (int \<times> int \<times> nat) list" where
  "np_unique rows = sort (remdups rows)"

text \<open>
  The distance loop of the interpolated bounce-back (lines 418 to 429). \<open>np.argmin\<close> is
  the index of the first least element. \<open>node_distance\<close> is \<open>mdst\<close> for one row of
  \<open>boundary\<close>; \<open>ibb_loop\<close> appends one \<open>mdst\<close> per row to the array it is given.
\<close>

fun argmin_loop :: "real list \<Rightarrow> nat \<Rightarrow> nat \<Rightarrow> real \<Rightarrow> nat" where
  "argmin_loop [] k best bv = best"
| "argmin_loop (x # xs) k best bv =
    (if x < bv then argmin_loop xs (k + 1) k x else argmin_loop xs (k + 1) best bv)"

fun np_argmin :: "real list \<Rightarrow> error + nat" where
  "np_argmin [] = Inl ValueError"
| "np_argmin (x # xs) = Inr (argmin_loop xs 1 0 x)"

definition node_distance ::
  "Lattice \<Rightarrow> (real \<times> real) list \<Rightarrow> int \<times> int \<times> nat \<Rightarrow> error + real option" where
  "node_distance s poly node =
    (case node of (i, j, q) \<Rightarrow>
     case lattice_coords s i j of Inl e \<Rightarrow> Inl e | Inr pt \<Rightarrow>
       let dist = map (\<lambda>(px, py). sqrt ((px - fst pt)\<^sup>2 + (py - snd pt)\<^sup>2)) poly
       in case np_argmin dist of Inl e \<Rightarrow> Inl e | Inr mpt \<Rightarrow>
            Inr (np_div (dist ! mpt) (dx s * linalg_norm (c ! q))))"

fun ibb_loop ::
  "Lattice \<Rightarrow> (real \<times> real) list \<Rightarrow> (int \<times> int \<times> nat) list \<Rightarrow> real option list
   \<Rightarrow> error + real option list" where
  "ibb_loop s poly [] acc = Inr acc"
| "ibb_loop s poly (node # nodes) acc =
    (case node_distance s poly node of Inl e \<Rightarrow> Inl e | Inr mdst \<Rightarrow>
       ibb_loop s poly nodes (acc @ [mdst]))"

text \<open>The area loop (lines 432 to 436): \<open>dx ** 2\<close> for each cell that holds the tag.\<close>

definition obstacle_area :: "Lattice \<Rightarrow> int list list \<Rightarrow> int \<Rightarrow> real" where
  "obstacle_area s lat tg =
    foldl (\<lambda>a (i, j). if lat ! i ! j = tg then a + (dx s)\<^sup>2 else a) 0
      (List.product [0..<nx s] [0..<ny s])"

text \<open>
  \<open>add_obstacle\<close>. The array \<open>ibb\<close> starts as \<open>np.empty(1)\<close>, one float that is never
  assigned: its content, whatever the allocator left there, is the parameter \<open>uninit\<close>.
  (The arrays \<open>obstacle\<close> and \<open>boundary\<close> start empty, as \<open>np.empty((0, 2))\<close> and
  \<open>np.empty((0, 3))\<close>.) An exception leaves the tags already written in the grid; the
  model returns the error alone.
\<close>

definition add_obstacle ::
  "real option \<Rightarrow> Lattice \<Rightarrow> (real \<times> real) list \<Rightarrow> int \<Rightarrow> error + Lattice" where
  "add_obstacle uninit s poly tg =
    (case poly_bnds poly of Inl e \<Rightarrow> Inl e | Inr bnds \<Rightarrow>
     case fill_lattice s poly bnds tg (List.product [0..<nx s] [0..<ny s]) (lattice s) []
       of Inl e \<Rightarrow> Inl e | Inr (lat, obstacle) \<Rightarrow>
     case build_boundary lat obstacle [] of Inl e \<Rightarrow> Inl e | Inr bnd0 \<Rightarrow>
     let bnd = np_unique bnd0
     in case (if IBB s then ibb_loop s poly bnd [uninit] else Inr [uninit])
          of Inl e \<Rightarrow> Inl e | Inr ib \<Rightarrow>
        Inr (s\<lparr>lattice := lat,
               obstacles := obstacles s @
                 [\<lparr>polygon = poly, area = obstacle_area s lat tg, boundary = bnd,
                   ibb = ib, tag = tg\<rparr>]\<rparr>))"

subsection \<open>Concrete states\<close>

text \<open>
  A platform that can provide a million float64 cells (8 MB); the default grid of 100
  by 100 nodes takes 310900.
\<close>

definition memory_cells :: nat where
  "memory_cells = 1000000"

text \<open>
  The solver as constructed without keyword arguments (stop mode \<open>'it'\<close>, \<open>it_max\<close>
  1000), after 1000 and after 1001 calls of \<open>check_stop\<close>.
\<close>

definition at_it_max :: Lattice where
  "at_it_max = (projr (BaseDefine_init memory_cells no_kwargs))\<lparr>it := 1000\<rparr>"

definition past_it_max :: Lattice where
  "past_it_max = (projr (BaseDefine_init memory_cells no_kwargs))\<lparr>it := 1001\<rparr>"

text \<open>
  A 3 by 3 grid whose centre cell is tagged as obstacle 1, with two distribution fields
  that differ at the centre cell only (direction 1 there holds 1 in the first and 3 in
  the second).
\<close>

definition grid3 :: Lattice where
  "grid3 = projr (BaseDefine_init memory_cells (no_kwargs\<lparr>kw_nx := Some 3\<rparr>))"

definition obstacle_a :: Lattice where
  "obstacle_a = grid3\<lparr>lattice := [[0, 0, 0], [0, 1, 0], [0, 0, 0]], g := full3 9 3 3 1\<rparr>"

definition obstacle_b :: Lattice where
  "obstacle_b = grid3\<lparr>lattice := [[0, 0, 0], [0, 1, 0], [0, 0, 0]],
     g := (full3 9 3 3 1)[1 := [[1, 1, 1], [1, 3, 1], [1, 1, 1]]]\<rparr>"

text \<open>
  The unit square of the specification, and three squares on the 3 by 3 grid on
  \<open>[0, 1] \<times> [0, 1]\<close>, whose nodes are at the coordinates 0, 1/2 and 1: one around the
  centre node, one around the node \<open>(2, 1)\<close> of the right edge, one around the node
  \<open>(0, 1)\<close> of the left edge.
\<close>

definition unit_square :: "(real \<times> real) list" where
  "unit_square = [(0, 0), (1, 0), (1, 1), (0, 1)]"

text \<open>A right triangle: its bounding box is the unit square, half of which is outside it.\<close>

definition triangle :: "(real \<times> real) list" where
  "triangle = [(0, 0), (1, 0), (0, 1)]"

definition centre_square :: "(real \<times> real) list" where
  "centre_square = [(1 / 4, 1 / 4), (3 / 4, 1 / 4), (3 / 4, 3 / 4), (1 / 4, 3 / 4)]"



text \<open>
  The 3 by 3 grid with no obstacle and a distribution field that is 1 everywhere except
  at the fluid cell \<open>(0, 2)\<close>, where direction 1 holds 3 and direction 3 holds 2.
\<close>

definition flow3 :: Lattice where
  "flow3 = grid3\<lparr>g := (full3 9 3 3 1)[1 := [[1, 1, 3], [1, 1, 1], [1, 1, 1]],
                                       3 := [[1, 1, 2], [1, 1, 1], [1, 1, 1]]]\<rparr>"

text \<open>The 3 by 3 grid constructed with interpolated bounce-back switched on.\<close>

definition grid3_ibb :: Lattice where
  "grid3_ibb = projr (BaseDefine_init memory_cells (no_kwargs\<lparr>kw_nx := Some 3, kw_IBB := Some True\<rparr>))"

section \<open>Properties\<close>

subsection \<open>Lattice constants\<close>

lemma sqrt2_gt: "sqrt 2 > 11 / 10"
  by (rule real_less_rsqrt) (simp add: power2_eq_square)

lemma idx_card_eq:
  "idx_card = [True, True, True, True, True, False, False, False, False]"
  using sqrt2_gt by (simp add: idx_card_def c_def linalg_norm_def)

lemma idx_extra_card_eq:
  "idx_extra_card = [False, False, False, False, False, True, True, True, True]"
  using sqrt2_gt by (simp add: idx_extra_card_def c_def linalg_norm_def)

lemma w_eq: "w = [4 / 9, 1 / 9, 1 / 9, 1 / 9, 1 / 9, 1 / 36, 1 / 36, 1 / 36, 1 / 36]"
  by (simp add: w_def idx_card_eq idx_extra_card_eq mask_assign_def eval_nat_numeral)

text \<open>
  Claim C7. The opposite-direction array \<open>ns\<close> is an involution that fixes the rest
  direction: \<open>ns[ns[q]] = q\<close> for every direction \<open>q\<close> in 0..8, and \<open>ns[0] = 0\<close>.
\<close>

theorem ns_involution: "(\<forall>q < 9. ns ! (ns ! q) = q) \<and> ns ! 0 = 0"
proof -
  have "ns ! (ns ! q) = q" if "q < 9" for q
  proof -
    from that have "q \<in> {0, 1, 2, 3, 4, 5, 6, 7, 8}" by auto
    then show ?thesis by (auto simp: ns_def)
  qed
  moreover have "ns ! 0 = 0" by (simp add: ns_def)
  ultimately show ?thesis by blast
qed

theorem ns_involution_witness: "(5::nat) < 9 \<and> ns ! (ns ! 5) = 5 \<and> ns ! 5 = 6"
  using ns_involution by (simp add: ns_def)

text \<open>
  Claim C8. The weight vector built at construction is 4/9 for the rest direction, 1/9
  for the four axis-aligned directions 1..4, 1/36 for the four diagonal directions
  5..8, and its entries sum to 1 (in exact arithmetic).
\<close>

theorem w_values:
  "w ! 0 = 4 / 9 \<and> (\<forall>q \<in> {1, 2, 3, 4}. w ! q = 1 / 9)
   \<and> (\<forall>q \<in> {5, 6, 7, 8}. w ! q = 1 / 36) \<and> length w = 9 \<and> sum_list w = 1"
  by (simp add: w_eq)

theorem w_values_witness: "(3::nat) \<in> {1, 2, 3, 4} \<and> w ! 3 = 1 / 9 \<and> (7::nat) \<in> {5, 6, 7, 8} \<and> w ! 7 = 1 / 36"
  using w_values by simp

subsection \<open>Construction\<close>

lemma BaseDefine_init_no_kwargs:
  "BaseDefine_init memory_cells no_kwargs = Inr \<lparr>x_min = 0, x_max = 1, y_min = 0, y_max = 1,
     nx = 100, ny = 100, tau_lbm = 1, dx = 1, dt = 1,
     Cx = 1, Ct = 1, Cr = 1, Cn = 1, Cu = 1, Cf = 1,
     IBB = False, stop = ''it'', it_max = 1000, lx = 99, ly = 99,
     tau_p_lbm = 1, tau_m_lbm = 1, om_p_lbm = 1, om_m_lbm = 1, om_lbm = 1,
     g = full3 9 100 100 0, g_eq = full3 9 100 100 0, g_up = full3 9 100 100 0,
     lattice = full2 100 100 0, rho = full2 100 100 1, u = full3 2 100 100 (Some 0),
     obstacles = [], it = 0, compute = False,
     drag_buff = \<lparr>obs_cv = False\<rparr>, lift_buff = \<lparr>obs_cv = False\<rparr>\<rparr>"
  by (simp add: BaseDefine_init_def no_kwargs_def kwargs_get_def cells_needed_def memory_cells_def Let_def)

subsection \<open>The stop check\<close>

lemma check_stop_result: "snd (check_stop s) = compute (fst (check_stop s))"
  by (simp add: check_stop_def Let_def)

lemma check_stop_keeps_compute: "compute s \<Longrightarrow> compute (fst (check_stop s))"
  by (simp add: check_stop_def Let_def)

lemma later_calls_all_true:
  "compute s \<Longrightarrow> (\<forall>f \<in> set fs. \<forall>x. compute (f x) = compute x)
   \<Longrightarrow> (\<forall>r \<in> set (later_calls s fs). r)"
proof (induction fs arbitrary: s)
  case Nil
  then show ?case by simp
next
  case (Cons f fs)
  obtain s' r where sr: "check_stop (f s) = (s', r)" by (cases "check_stop (f s)")
  from Cons.prems have cf: "compute (f s)" by simp
  from sr check_stop_keeps_compute [OF cf] have c': "compute s'" by simp
  from sr check_stop_result [of "f s"] c' have "r" by simp
  moreover from Cons.IH [OF c'] Cons.prems(2)
  have "\<forall>r \<in> set (later_calls s' fs). r" by simp
  ultimately show ?case using sr by simp
qed

text \<open>
  Claim C3, as stated: in stop mode \<open>'it'\<close> the call returns true once the iteration
  count has reached \<open>it_max\<close> (count \<open>\<ge> it_max\<close>). It does not: the test of the source is
  \<open>it > it_max\<close>, as its message "it>it_max" says. With \<open>it = it_max = 1000\<close> the call
  returns false, whether the count is read before the call (1000) or after it (1001).
\<close>

theorem check_stop_at_it_max_counterexample:
  "stop at_it_max = ''it'' \<and> it at_it_max \<ge> it_max at_it_max
   \<and> it (fst (check_stop at_it_max)) \<ge> it_max at_it_max
   \<and> \<not> snd (check_stop at_it_max)"
  by (simp add: at_it_max_def BaseDefine_init_no_kwargs check_stop_def Let_def)

text \<open>
  Claim C3, amended. A call of \<open>check_stop\<close> returns true exactly when the flag
  \<open>compute\<close> was already set by an earlier call, or the stop mode is \<open>'it'\<close> and the
  iteration count before this call's increment is strictly greater than \<open>it_max\<close>, or
  the stop mode is \<open>'obs'\<close> and both the drag buffer and the lift buffer report
  converged.
\<close>

theorem check_stop_criterion:
  "snd (check_stop s) =
     (compute s \<or> (stop s = ''it'' \<and> it s > it_max s)
      \<or> (stop s = ''obs'' \<and> obs_cv (drag_buff s) \<and> obs_cv (lift_buff s)))"
  by (auto simp: check_stop_def Let_def)

text \<open>
  Claim C10. \<open>check_stop\<close> is monotone and counts every call: once a call has returned
  true, every later call returns true, whatever the rest of the time step did to the
  stop mode, the iteration count or the buffers in between (it may do anything that
  leaves the flag \<open>compute\<close> alone, which nothing clears); and every call adds exactly
  one to \<open>it\<close>.
\<close>

theorem check_stop_monotone_counting:
  "(snd (check_stop s) \<longrightarrow>
      (\<forall>fs. (\<forall>f \<in> set fs. \<forall>x. compute (f x) = compute x)
            \<longrightarrow> (\<forall>r \<in> set (later_calls (fst (check_stop s)) fs). r)))
   \<and> it (fst (check_stop s)) = it s + 1"
proof -
  have "\<forall>r \<in> set (later_calls (fst (check_stop s)) fs). r"
    if "snd (check_stop s)" and "\<forall>f \<in> set fs. \<forall>x. compute (f x) = compute x" for fs
  proof -
    from that(1) have "compute (fst (check_stop s))"
      by (simp add: check_stop_result)
    then show ?thesis using that(2) by (rule later_calls_all_true)
  qed
  moreover have "it (fst (check_stop s)) = it s + 1"
    by (simp add: check_stop_def Let_def)
  ultimately show ?thesis by blast
qed

theorem check_stop_monotone_counting_witness:
  "snd (check_stop past_it_max)
   \<and> later_calls (fst (check_stop past_it_max))
        [\<lambda>x. x\<lparr>stop := ''obs''\<rparr>, \<lambda>x. x\<lparr>it := 0, it_max := 5\<rparr>] = [True, True]
   \<and> it (fst (check_stop past_it_max)) = 1002"
proof -
  let ?fs = "[\<lambda>x. x\<lparr>stop := ''obs''\<rparr>, \<lambda>x. x\<lparr>it := 0, it_max := 5\<rparr>]"
  let ?rs = "later_calls (fst (check_stop past_it_max)) ?fs"
  have first: "snd (check_stop past_it_max)"
    by (simp add: past_it_max_def BaseDefine_init_no_kwargs check_stop_def Let_def)
  have keep: "\<forall>f \<in> set ?fs. \<forall>x. compute (f x) = compute x"
    by simp
  from check_stop_monotone_counting [of past_it_max] first keep
  have all_true: "\<forall>r \<in> set ?rs. r" and count: "it (fst (check_stop past_it_max)) = it past_it_max + 1"
    by blast+
  have "length ?rs = 2"
    by (simp add: split_beta Let_def)
  then obtain a b where ab: "?rs = [a, b]"
    by (metis (no_types, lifting) length_0_conv length_Suc_conv numeral_2_eq_2)
  have "a" and "b" using all_true unfolding ab by simp_all
  then have "?rs = [True, True]" unfolding ab by simp
  moreover from count have "it (fst (check_stop past_it_max)) = 1002"
    by (simp add: past_it_max_def)
  ultimately show ?thesis using first by blast
qed

subsection \<open>The grid size at construction\<close>




subsection \<open>The macroscopic update\<close>

lemma shape2_nth: "shape2 n m a \<Longrightarrow> i < n \<Longrightarrow> length (a ! i) = m"
  by (simp add: shape2_def list_all_length)

lemma plane_add_shape: "shape2 n m a \<Longrightarrow> shape2 n m b \<Longrightarrow> shape2 n m (plane_add a b)"
  by (auto simp: shape2_def plane_add_def list_all_length)

lemma plane_add_nth:
  "shape2 n m a \<Longrightarrow> shape2 n m b \<Longrightarrow> i < n \<Longrightarrow> j < m
   \<Longrightarrow> plane_add a b ! i ! j = a ! i ! j + b ! i ! j"
  by (simp add: shape2_def plane_add_def list_all_length)

lemma foldl_plane_add_shape:
  "shape2 n m p \<Longrightarrow> list_all (shape2 n m) ps \<Longrightarrow> shape2 n m (foldl plane_add p ps)"
  by (induction ps arbitrary: p) (simp_all add: plane_add_shape)

lemma foldl_plane_add_nth:
  "shape2 n m p \<Longrightarrow> list_all (shape2 n m) ps \<Longrightarrow> i < n \<Longrightarrow> j < m
   \<Longrightarrow> foldl plane_add p ps ! i ! j = p ! i ! j + sum_list (map (\<lambda>x. x ! i ! j) ps)"
proof (induction ps arbitrary: p)
  case Nil
  then show ?case by simp
next
  case (Cons x xs)
  from Cons.prems have sx: "shape2 n m x" and sxs: "list_all (shape2 n m) xs" by simp_all
  have "shape2 n m (plane_add p x)" using Cons.prems(1) sx by (rule plane_add_shape)
  from Cons.IH [OF this sxs Cons.prems(3,4)]
  show ?case using plane_add_nth [OF Cons.prems(1) sx Cons.prems(3,4)] by simp
qed

lemma np_sum_axis0_shape:
  "ps \<noteq> [] \<Longrightarrow> list_all (shape2 n m) ps \<Longrightarrow> shape2 n m (np_sum_axis0 ps)"
  by (cases ps) (simp_all add: foldl_plane_add_shape)

lemma np_sum_axis0_nth:
  "ps \<noteq> [] \<Longrightarrow> list_all (shape2 n m) ps \<Longrightarrow> i < n \<Longrightarrow> j < m
   \<Longrightarrow> np_sum_axis0 ps ! i ! j = (\<Sum>q < length ps. ps ! q ! i ! j)"
proof -
  assume ne: "ps \<noteq> []" and sh: "list_all (shape2 n m) ps" and ij: "i < n" "j < m"
  from ne obtain p rest where ps: "ps = p # rest" by (cases ps) auto
  with sh have "shape2 n m p" "list_all (shape2 n m) rest" by simp_all
  from foldl_plane_add_nth [OF this ij]
  have "np_sum_axis0 ps ! i ! j = sum_list (map (\<lambda>x. x ! i ! j) ps)"
    by (simp add: ps)
  also have "\<dots> = (\<Sum>q < length ps. map (\<lambda>x. x ! i ! j) ps ! q)"
    using sum_list_sum_nth [of "map (\<lambda>x. x ! i ! j) ps"] by (simp add: atLeast0LessThan)
  also have "\<dots> = (\<Sum>q < length ps. ps ! q ! i ! j)"
    by (rule sum.cong) simp_all
  finally show ?thesis .
qed

lemma plane_scale_shape: "shape2 n m p \<Longrightarrow> shape2 n m (plane_scale a p)"
  by (simp add: shape2_def plane_scale_def list_all_length)

lemma plane_scale_nth:
  "shape2 n m p \<Longrightarrow> i < n \<Longrightarrow> j < m \<Longrightarrow> plane_scale a p ! i ! j = a * p ! i ! j"
  by (simp add: shape2_def plane_scale_def list_all_length)

lemma tensordot_nth:
  assumes "a \<noteq> []" "length v = length a" "list_all (shape2 n m) a" "i < n" "j < m"
  shows "tensordot v a ! i ! j = (\<Sum>q < length a. v ! q * a ! q ! i ! j)"
proof -
  let ?ps = "map (\<lambda>(vq, p). plane_scale vq p) (zip v a)"
  have len: "length ?ps = length a" using assms(2) by simp
  have ne: "?ps \<noteq> []" using assms(1,2) by (cases a; cases v) simp_all
  have sh: "list_all (shape2 n m) ?ps"
    using assms(2,3) by (simp add: list_all_length plane_scale_shape)
  have "tensordot v a ! i ! j = (\<Sum>q < length ?ps. ?ps ! q ! i ! j)"
    unfolding tensordot_def by (rule np_sum_axis0_nth [OF ne sh assms(4,5)])
  also have "\<dots> = (\<Sum>q < length a. v ! q * a ! q ! i ! j)"
    unfolding len
  proof (rule sum.cong)
    fix q assume "q \<in> {..<length a}"
    then have q: "q < length a" by simp
    with assms(3) have "shape2 n m (a ! q)" by (simp add: list_all_length)
    from plane_scale_nth [OF this assms(4,5)] q assms(2)
    show "?ps ! q ! i ! j = v ! q * a ! q ! i ! j" by simp
  qed simp
  finally show ?thesis .
qed

lemma plane_div_nth:
  "shape2 n m a \<Longrightarrow> shape2 n m b \<Longrightarrow> i < n \<Longrightarrow> j < m
   \<Longrightarrow> plane_div a b ! i ! j = np_div (a ! i ! j) (b ! i ! j)"
  by (simp add: shape2_def plane_div_def list_all_length)

lemma tensordot_shape:
  assumes "a \<noteq> []" "length v = length a" "list_all (shape2 n m) a"
  shows "shape2 n m (tensordot v a)"
proof -
  let ?ps = "map (\<lambda>(vq, p). plane_scale vq p) (zip v a)"
  have ne: "?ps \<noteq> []" using assms(1,2) by (cases a; cases v) simp_all
  have sh: "list_all (shape2 n m) ?ps"
    using assms(2,3) by (simp add: list_all_length plane_scale_shape)
  show ?thesis unfolding tensordot_def by (rule np_sum_axis0_shape [OF ne sh])
qed

lemma length_c: "length c = 9" by (simp add: c_def)

lemma macro_rho: "rho (macro s) = np_sum_axis0 (g s)"
  by (simp add: macro_def Let_def)

lemma macro_u:
  "u (macro s) = (u s)[0 := plane_div (tensordot (map (\<lambda>cq. real_of_int (cq ! 0)) c) (g s)) (np_sum_axis0 (g s)),
                       1 := plane_div (tensordot (map (\<lambda>cq. real_of_int (cq ! 1)) c) (g s)) (np_sum_axis0 (g s))]"
  by (simp add: macro_def Let_def)

lemma macro_cell:
  assumes sh: "shape3 9 (nx s) (ny s) (g s)" and lu: "length (u s) = 2"
    and ij: "i < nx s" "j < ny s"
  shows "rho (macro s) ! i ! j = (\<Sum>q < 9. g s ! q ! i ! j)"
    and "u (macro s) ! 0 ! i ! j =
          np_div (\<Sum>q < 9. real_of_int (c ! q ! 0) * g s ! q ! i ! j) (rho (macro s) ! i ! j)"
    and "u (macro s) ! 1 ! i ! j =
          np_div (\<Sum>q < 9. real_of_int (c ! q ! 1) * g s ! q ! i ! j) (rho (macro s) ! i ! j)"
proof -
  from sh have len: "length (g s) = 9" and all: "list_all (shape2 (nx s) (ny s)) (g s)"
    by (simp_all add: shape3_def)
  from len have ne: "g s \<noteq> []" by auto
  show r: "rho (macro s) ! i ! j = (\<Sum>q < 9. g s ! q ! i ! j)"
    using np_sum_axis0_nth [OF ne all ij] by (simp add: macro_rho len)
  have shr: "shape2 (nx s) (ny s) (np_sum_axis0 (g s))"
    by (rule np_sum_axis0_shape [OF ne all])
  have t: "tensordot (map (\<lambda>cq. real_of_int (cq ! k)) c) (g s) ! i ! j
           = (\<Sum>q < 9. real_of_int (c ! q ! k) * g s ! q ! i ! j)"
       and sht: "shape2 (nx s) (ny s) (tensordot (map (\<lambda>cq. real_of_int (cq ! k)) c) (g s))" for k
  proof -
    have l: "length (map (\<lambda>cq. real_of_int (cq ! k)) c) = length (g s)"
      by (simp add: len length_c)
    have "tensordot (map (\<lambda>cq. real_of_int (cq ! k)) c) (g s) ! i ! j
           = (\<Sum>q < length (g s). map (\<lambda>cq. real_of_int (cq ! k)) c ! q * g s ! q ! i ! j)"
      by (rule tensordot_nth [OF ne l all ij])
    also have "\<dots> = (\<Sum>q < 9. real_of_int (c ! q ! k) * g s ! q ! i ! j)"
      unfolding len by (rule sum.cong) (simp_all add: length_c)
    finally show "tensordot (map (\<lambda>cq. real_of_int (cq ! k)) c) (g s) ! i ! j
           = (\<Sum>q < 9. real_of_int (c ! q ! k) * g s ! q ! i ! j)" .
    show "shape2 (nx s) (ny s) (tensordot (map (\<lambda>cq. real_of_int (cq ! k)) c) (g s))"
      by (rule tensordot_shape [OF ne l all])
  qed
  show "u (macro s) ! 0 ! i ! j =
          np_div (\<Sum>q < 9. real_of_int (c ! q ! 0) * g s ! q ! i ! j) (rho (macro s) ! i ! j)"
    using plane_div_nth [OF sht [of 0] shr ij] t [of 0] r lu
    by (simp add: macro_u macro_rho)
  show "u (macro s) ! 1 ! i ! j =
          np_div (\<Sum>q < 9. real_of_int (c ! q ! 1) * g s ! q ! i ! j) (rho (macro s) ! i ! j)"
    using plane_div_nth [OF sht [of 1] shr ij] t [of 1] r lu
    by (simp add: macro_u macro_rho)
qed

lemma shape2_full2: "shape2 n m (full2 n m v)"
  by (simp add: shape2_def full2_def list_all_length)

lemma shape3_full3: "shape3 k n m (full3 k n m v)"
  by (simp add: shape3_def full3_def shape2_full2 list_all_length)

lemma BaseDefine_init_wf_shapes: "BaseDefine_init capacity kw = Inr s \<Longrightarrow> wf_shapes s"
  by (auto simp: BaseDefine_init_def Let_def wf_shapes_def shape2_full2 shape3_full3
      split: if_splits)

lemma grid3_eq:
  "nx grid3 = 3 \<and> ny grid3 = 3 \<and> u grid3 = full3 2 3 3 (Some 0) \<and> rho grid3 = full2 3 3 1
   \<and> lattice grid3 = full2 3 3 0"
  by (simp add: grid3_def BaseDefine_init_def no_kwargs_def kwargs_get_def cells_needed_def memory_cells_def Let_def)

lemma wf_obstacle_b: "wf_shapes obstacle_b"
  by (simp add: wf_shapes_def obstacle_b_def grid3_eq shape3_def shape2_def full3_def full2_def eval_nat_numeral)

lemma wf_obstacle_a: "wf_shapes obstacle_a"
  by (simp add: wf_shapes_def obstacle_a_def grid3_eq shape3_def shape2_def full3_def full2_def eval_nat_numeral)

lemma fluid_agree_iff:
  "fluid_agree s t \<longleftrightarrow>
     (\<forall>i < nx s. \<forall>j < ny s. lattice s ! i ! j = 0 \<longrightarrow> (\<forall>q < 9. g s ! q ! i ! j = g t ! q ! i ! j))"
  by (auto simp: fluid_agree_def list_all_iff)

lemma wf_flow3: "wf_shapes flow3"
  by (simp add: wf_shapes_def flow3_def grid3_eq shape3_def shape2_def full3_def full2_def
      eval_nat_numeral)

text \<open>
  Claim C1. \<open>macro\<close> sets \<open>rho[i,j] = \<Sum>q g[q,i,j]\<close> at every cell of the grid, and so at
  every fluid cell; and where that density is not zero (the precondition: it is the
  divisor), it sets \<open>u_x[i,j] = (\<Sum>q c_x[q] g[q,i,j]) / rho[i,j]\<close> and
  \<open>u_y[i,j] = (\<Sum>q c_y[q] g[q,i,j]) / rho[i,j]\<close>.
\<close>

theorem macro_moments:
  assumes "wf_shapes s" and "i < nx s" and "j < ny s"
  shows "rho (macro s) ! i ! j = (\<Sum>q < 9. g s ! q ! i ! j)
    \<and> ((\<Sum>q < 9. g s ! q ! i ! j) \<noteq> 0 \<longrightarrow>
        u (macro s) ! 0 ! i ! j =
          Some ((\<Sum>q < 9. real_of_int (c ! q ! 0) * g s ! q ! i ! j) / rho (macro s) ! i ! j)
        \<and> u (macro s) ! 1 ! i ! j =
          Some ((\<Sum>q < 9. real_of_int (c ! q ! 1) * g s ! q ! i ! j) / rho (macro s) ! i ! j))"
proof -
  from assms(1) have sh: "shape3 9 (nx s) (ny s) (g s)" and lu: "length (u s) = 2"
    by (simp_all add: wf_shapes_def shape3_def)
  from macro_cell [OF sh lu assms(2,3)] show ?thesis
    by (simp add: np_div_def)
qed

theorem macro_moments_witness:
  "lattice flow3 ! 0 ! 2 = 0
   \<and> (\<Sum>q < 9. g flow3 ! q ! 0 ! 2) = 12
   \<and> rho (macro flow3) ! 0 ! 2 = 12
   \<and> u (macro flow3) ! 0 ! 0 ! 2 = Some (1 / 6)
   \<and> u (macro flow3) ! 1 ! 0 ! 2 = Some (1 / 12)"
proof -
  have gs: "g flow3 = (full3 9 3 3 1)[1 := [[1, 1, 3], [1, 1, 1], [1, 1, 1]],
                                      3 := [[1, 1, 2], [1, 1, 1], [1, 1, 1]]]"
    by (simp add: flow3_def)
  have fluid: "lattice flow3 ! 0 ! 2 = 0"
    by (simp add: flow3_def grid3_eq full2_def)
  have ij: "0 < nx flow3" "2 < ny flow3"
    by (simp_all add: flow3_def grid3_eq)
  have total: "(\<Sum>q < 9. g flow3 ! q ! 0 ! 2) = 12"
    by (simp add: gs full3_def full2_def lessThan_Suc eval_nat_numeral)
  then have nz: "(\<Sum>q < 9. g flow3 ! q ! 0 ! 2) \<noteq> 0" by simp
  from macro_moments [OF wf_flow3 ij] nz
  have r: "rho (macro flow3) ! 0 ! 2 = (\<Sum>q < 9. g flow3 ! q ! 0 ! 2)"
    and ux: "u (macro flow3) ! 0 ! 0 ! 2 =
          Some ((\<Sum>q < 9. real_of_int (c ! q ! 0) * g flow3 ! q ! 0 ! 2) / rho (macro flow3) ! 0 ! 2)"
    and uy: "u (macro flow3) ! 1 ! 0 ! 2 =
          Some ((\<Sum>q < 9. real_of_int (c ! q ! 1) * g flow3 ! q ! 0 ! 2) / rho (macro flow3) ! 0 ! 2)"
    by blast+
  have mx: "(\<Sum>q < 9. real_of_int (c ! q ! 0) * g flow3 ! q ! 0 ! 2) = 2"
    by (simp add: gs c_def full3_def full2_def lessThan_Suc eval_nat_numeral)
  have my: "(\<Sum>q < 9. real_of_int (c ! q ! 1) * g flow3 ! q ! 0 ! 2) = 1"
    by (simp add: gs c_def full3_def full2_def lessThan_Suc eval_nat_numeral)
  from r total have r12: "rho (macro flow3) ! 0 ! 2 = 12" by simp
  have ux': "u (macro flow3) ! 0 ! 0 ! 2 = Some (1 / 6)"
    using ux unfolding mx r12 by simp
  have uy': "u (macro flow3) ! 1 ! 0 ! 2 = Some (1 / 12)"
    using uy unfolding my r12 by simp
  from fluid total r12 ux' uy' show ?thesis by blast
qed

text \<open>
  Claim C2, as stated: two states whose \<open>g\<close> arrays agree at every fluid cell and differ
  at an obstacle cell give identical \<open>rho\<close> and \<open>u\<close> arrays. They do not: \<open>macro\<close> has no
  mask, it reads the obstacle cells as well and stores their sums. On the 3 by 3 grid
  with the centre tagged, the two fields give density 9 and 11 at the centre.
\<close>

theorem macro_reads_obstacle_cells_counterexample:
  "lattice obstacle_a = lattice obstacle_b \<and> fluid_agree obstacle_a obstacle_b
   \<and> lattice obstacle_a ! 1 ! 1 > 0
   \<and> g obstacle_a ! 1 ! 1 ! 1 \<noteq> g obstacle_b ! 1 ! 1 ! 1
   \<and> rho (macro obstacle_a) ! 1 ! 1 = 9 \<and> rho (macro obstacle_b) ! 1 ! 1 = 11
   \<and> rho (macro obstacle_a) \<noteq> rho (macro obstacle_b)
   \<and> u (macro obstacle_a) \<noteq> u (macro obstacle_b)"
proof -
  have fa: "fluid_agree obstacle_a obstacle_b"
    by (simp add: fluid_agree_def obstacle_a_def obstacle_b_def grid3_eq full3_def full2_def
        upt_rec [of _ "numeral _"] upt_rec [of _ "Suc _"] eval_nat_numeral)
  have ra: "rho (macro obstacle_a) ! 1 ! 1 = 9"
    by (simp add: macro_rho obstacle_a_def full3_def full2_def plane_add_def eval_nat_numeral)
  have rb: "rho (macro obstacle_b) ! 1 ! 1 = 11"
    by (simp add: macro_rho obstacle_b_def full3_def full2_def plane_add_def eval_nat_numeral)
  from ra rb have rne: "rho (macro obstacle_a) \<noteq> rho (macro obstacle_b)" by auto
  have ua: "u (macro obstacle_a) ! 0 ! 1 ! 1 = Some 0"
    by (simp add: macro_u obstacle_a_def grid3_eq full3_def full2_def plane_add_def plane_div_def
        tensordot_def plane_scale_def np_div_def c_def eval_nat_numeral)
  have ub: "u (macro obstacle_b) ! 0 ! 1 ! 1 = Some (2 / 11)"
    by (simp add: macro_u obstacle_b_def grid3_eq full3_def full2_def plane_add_def plane_div_def
        tensordot_def plane_scale_def np_div_def c_def eval_nat_numeral)
  from ua ub have une: "u (macro obstacle_a) \<noteq> u (macro obstacle_b)" by auto
  show ?thesis using fa ra rb rne une
    by (simp add: obstacle_a_def obstacle_b_def full3_def full2_def eval_nat_numeral)
qed

text \<open>
  Claim C2, amended. \<open>macro\<close> reads every cell, obstacle cells included, and works cell
  by cell: for two states (of the same grid) whose \<open>g\<close> arrays agree at every fluid
  cell, \<open>macro\<close> produces the same \<open>rho\<close> and \<open>u\<close> at every fluid cell; at an obstacle
  cell \<open>rho\<close> and \<open>u\<close> are computed from that cell's own \<open>g\<close> values.
\<close>

theorem macro_fluid_cells:
  assumes "wf_shapes s" and "wf_shapes t" and "nx t = nx s" and "ny t = ny s"
    and "fluid_agree s t" and "i < nx s" and "j < ny s" and "lattice s ! i ! j = 0"
  shows "rho (macro s) ! i ! j = rho (macro t) ! i ! j
    \<and> u (macro s) ! 0 ! i ! j = u (macro t) ! 0 ! i ! j
    \<and> u (macro s) ! 1 ! i ! j = u (macro t) ! 1 ! i ! j"
proof -
  from assms(1) have shs: "shape3 9 (nx s) (ny s) (g s)" and lus: "length (u s) = 2"
    by (simp_all add: wf_shapes_def shape3_def)
  from assms(2) have sht: "shape3 9 (nx t) (ny t) (g t)" and lut: "length (u t) = 2"
    by (simp_all add: wf_shapes_def shape3_def)
  from assms(6,7) assms(3,4) have ijt: "i < nx t" "j < ny t" by simp_all
  from assms(5,6,7,8) have eq: "\<And>q. q < 9 \<Longrightarrow> g s ! q ! i ! j = g t ! q ! i ! j"
    by (simp add: fluid_agree_iff)
  then have sums: "(\<Sum>q < 9. g s ! q ! i ! j) = (\<Sum>q < 9. g t ! q ! i ! j)"
    "\<And>k. (\<Sum>q < 9. real_of_int (c ! q ! k) * g s ! q ! i ! j)
        = (\<Sum>q < 9. real_of_int (c ! q ! k) * g t ! q ! i ! j)"
    by simp_all
  show ?thesis
    using macro_cell [OF shs lus assms(6,7)] macro_cell [OF sht lut ijt] sums
    by simp
qed

theorem macro_fluid_cells_witness:
  "lattice obstacle_a ! 0 ! 2 = 0
   \<and> rho (macro obstacle_a) ! 0 ! 2 = rho (macro obstacle_b) ! 0 ! 2
   \<and> u (macro obstacle_a) ! 0 ! 0 ! 2 = u (macro obstacle_b) ! 0 ! 0 ! 2
   \<and> u (macro obstacle_a) ! 1 ! 0 ! 2 = u (macro obstacle_b) ! 1 ! 0 ! 2"
proof -
  have fa: "fluid_agree obstacle_a obstacle_b"
    by (simp add: fluid_agree_def obstacle_a_def obstacle_b_def grid3_eq full3_def full2_def
        upt_rec [of _ "numeral _"] upt_rec [of _ "Suc _"] eval_nat_numeral)
  have dims: "nx obstacle_b = nx obstacle_a" "ny obstacle_b = ny obstacle_a"
    "0 < nx obstacle_a" "2 < ny obstacle_a"
    by (simp_all add: obstacle_a_def obstacle_b_def grid3_eq)
  have fl: "lattice obstacle_a ! 0 ! 2 = 0" by (simp add: obstacle_a_def)
  from macro_fluid_cells [OF wf_obstacle_a wf_obstacle_b dims(1,2) fa dims(3,4) fl] fl
  show ?thesis by simp
qed


subsection \<open>Obstacles\<close>

lemma crossing_point_bound:
  fixes xi xj yi yj x y :: real
  assumes ytest: "(yi < y \<and> y \<le> yj) \<or> (yj < y \<and> y \<le> yi)"
    and xi: "x \<le> xi" and xj: "x \<le> xj"
  shows "x \<le> xi + (y - yi) * (xj - xi) / (yj - yi)"
proof -
  define t where "t = (y - yi) / (yj - yi)"
  from ytest have ne: "yj - yi \<noteq> 0" by auto
  from ytest have t0: "0 \<le> t" and t1: "t \<le> 1"
    unfolding t_def by (auto simp: field_simps zero_le_divide_iff divide_le_eq)
  have "t * (xj - xi) = (y - yi) * (xj - xi) / (yj - yi)"
    unfolding t_def by simp
  moreover have "(1 - t) * xi + t * xj = xi + t * (xj - xi)"
    by (simp add: algebra_simps)
  ultimately have eq: "xi + (y - yi) * (xj - xi) / (yj - yi) = (1 - t) * xi + t * xj"
    by simp
  have "(1 - t) * x \<le> (1 - t) * xi" using xi t1 by (intro mult_left_mono) simp_all
  moreover have "t * x \<le> t * xj" using xj t0 by (intro mult_left_mono) simp_all
  ultimately have "(1 - t) * x + t * x \<le> (1 - t) * xi + t * xj" by (rule add_mono)
  then show ?thesis unfolding eq by (simp add: algebra_simps)
qed

lemma toggle_iff_ray_crosses:
  "(((snd vi < snd pt \<and> snd pt \<le> snd vj) \<or> (snd vj < snd pt \<and> snd pt \<le> snd vi))
      \<and> (fst vi < fst pt \<or> fst vj < fst pt)
      \<and> fst vi + (snd pt - snd vi) * ((fst vj - fst vi) / (snd vj - snd vi)) < fst pt)
   = ray_crosses pt (vi, vj)"
proof -
  obtain xi yi where vi: "vi = (xi, yi)" by (cases vi)
  obtain xj yj where vj: "vj = (xj, yj)" by (cases vj)
  obtain x y where pt: "pt = (x, y)" by (cases pt)
  have "xi < x \<or> xj < x"
    if "(yi < y \<and> y \<le> yj) \<or> (yj < y \<and> y \<le> yi)"
      and "xi + (y - yi) * (xj - xi) / (yj - yi) < x"
  proof (rule ccontr)
    assume "\<not> (xi < x \<or> xj < x)"
    then have "x \<le> xi" "x \<le> xj" by simp_all
    from crossing_point_bound [OF that(1) this] that(2) show False by simp
  qed
  then show ?thesis
    unfolding vi vj pt ray_crosses_def by auto
qed

lemma is_inside_loop_step:
  "is_inside_loop (vi # rest) vj pt b =
     is_inside_loop rest vi pt (if ray_crosses pt (vi, vj) then \<not> b else b)"
proof -
  have "(if ((snd vi < snd pt \<and> snd pt \<le> snd vj) \<or> (snd vj < snd pt \<and> snd pt \<le> snd vi))
          \<and> (fst vi < fst pt \<or> fst vj < fst pt)
       then
         (let slope = (fst vj - fst vi) / (snd vj - snd vi)
          in if fst vi + (snd pt - snd vi) * slope < fst pt then \<not> b else b)
       else b) = (if ray_crosses pt (vi, vj) then \<not> b else b)"
    using toggle_iff_ray_crosses [of vi pt vj] by (auto simp: Let_def)
  then show ?thesis by simp
qed

lemma is_inside_loop_parity:
  "is_inside_loop vs vj pt b
   = (b \<noteq> odd (length (filter (ray_crosses pt) (edges_from vj vs))))"
proof (induction vs arbitrary: vj b)
  case Nil
  then show ?case by simp
next
  case (Cons vi rest)
  show ?case
    unfolding is_inside_loop_step Cons.IH by auto
qed

text \<open>
  Claim C6. \<open>is_inside\<close> implements the even-odd rule: for every polygon and point it
  returns true exactly when the ray crosses an odd number of edges. For the unit
  square \<open>[(0,0), (1,0), (1,1), (0,1)]\<close> it returns true for the point \<open>(0.5, 0.5)\<close> and
  false for the point \<open>(2, 2)\<close>.
\<close>

theorem is_inside_even_odd:
  "is_inside poly pt = even_odd_rule poly pt
   \<and> is_inside unit_square (1 / 2, 1 / 2) \<and> \<not> is_inside unit_square (2, 2)"
proof -
  have "is_inside poly pt = even_odd_rule poly pt"
    by (simp add: is_inside_def even_odd_rule_def polygon_edges_def is_inside_loop_parity)
  moreover have "is_inside unit_square (1 / 2, 1 / 2)" "\<not> is_inside unit_square (2, 2)"
    by (simp_all add: is_inside_def unit_square_def)
  ultimately show ?thesis by simp
qed

theorem is_inside_even_odd_witness:
  "filter (ray_crosses (3 / 4, 3 / 4)) (polygon_edges triangle)
     = [((0, 0), (0, 1)), ((0, 1), (1, 0))] \<and> \<not> is_inside triangle (3 / 4, 3 / 4)
   \<and> filter (ray_crosses (1 / 2, 1 / 2)) (polygon_edges unit_square) = [((0, 0), (0, 1))]
   \<and> is_inside unit_square (1 / 2, 1 / 2)"
proof -
  have f1: "filter (ray_crosses (3 / 4, 3 / 4)) (polygon_edges triangle)
     = [((0, 0), (0, 1)), ((0, 1), (1, 0))]"
    by (simp add: polygon_edges_def triangle_def ray_crosses_def)
  have f2: "filter (ray_crosses (1 / 2, 1 / 2)) (polygon_edges unit_square) = [((0, 0), (0, 1))]"
    by (simp add: polygon_edges_def unit_square_def ray_crosses_def)
  have e1: "\<not> even_odd_rule triangle (3 / 4, 3 / 4)"
    by (simp add: even_odd_rule_def f1)
  have e2: "even_odd_rule unit_square (1 / 2, 1 / 2)"
    by (simp add: even_odd_rule_def f2)
  from is_inside_even_odd [of triangle "(3 / 4, 3 / 4)"] e1
  have "\<not> is_inside triangle (3 / 4, 3 / 4)" by blast
  moreover from is_inside_even_odd [of unit_square "(1 / 2, 1 / 2)"] e2
  have "is_inside unit_square (1 / 2, 1 / 2)" by blast
  ultimately show ?thesis using f1 f2 by blast
qed

lemma grid3_full:
  "grid3 = \<lparr>x_min = 0, x_max = 1, y_min = 0, y_max = 1,
     nx = 3, ny = 3, tau_lbm = 1, dx = 1, dt = 1,
     Cx = 1, Ct = 1, Cr = 1, Cn = 1, Cu = 1, Cf = 1,
     IBB = False, stop = ''it'', it_max = 1000, lx = 2, ly = 2,
     tau_p_lbm = 1, tau_m_lbm = 1, om_p_lbm = 1, om_m_lbm = 1, om_lbm = 1,
     g = full3 9 3 3 0, g_eq = full3 9 3 3 0, g_up = full3 9 3 3 0,
     lattice = full2 3 3 0, rho = full2 3 3 1, u = full3 2 3 3 (Some 0),
     obstacles = [], it = 0, compute = False,
     drag_buff = \<lparr>obs_cv = False\<rparr>, lift_buff = \<lparr>obs_cv = False\<rparr>\<rparr>"
  by (simp add: grid3_def BaseDefine_init_def no_kwargs_def kwargs_get_def cells_needed_def memory_cells_def Let_def)

lemma cells3:
  "List.product [0..<3] [0..<3] =
     [(0, 0), (0, 1), (0, 2), (1, 0), (1, 1), (1, 2), (2, 0), (2, 1), (2, 2)]"
  by (simp add: upt_rec [of _ "numeral _"] upt_rec [of _ "Suc _"] eval_nat_numeral)


lemma lat3: "full2 3 3 (0::int) = [[0, 0, 0], [0, 0, 0], [0, 0, 0]]"
  by (simp add: full2_def eval_nat_numeral)

lemma grid3_sel:
  "nx grid3 = 3" "ny grid3 = 3" "lattice grid3 = [[0, 0, 0], [0, 0, 0], [0, 0, 0]]"
  "dx grid3 = 1" "obstacles grid3 = []"
  by (simp_all add: grid3_full lat3)


lemma bnds_centre: "poly_bnds centre_square = Inr (1 / 4, 3 / 4, 1 / 4, 3 / 4)"
  by (simp add: poly_bnds_def centre_square_def)

lemma boundary_centre:
  "build_boundary [[0, 0, 0], [0, 1, 0], [0, 0, 0]] [(1, 1)] []
   = Inr [(2, 1, 2), (0, 1, 1), (1, 2, 4), (1, 0, 3), (2, 2, 6), (0, 0, 5), (0, 2, 8), (2, 0, 7)]"
  by (simp add: upt_rec [of _ "numeral _"] upt_rec [of _ "Suc _"] c_def ns_def lat_get_def np_index_def Let_def)

lemma unique_centre:
  "np_unique [(2, 1, 2), (0, 1, 1), (1, 2, 4), (1, 0, 3), (2, 2, 6), (0, 0, 5), (0, 2, 8), (2, 0, 7)]
   = [(0, 0, 5), (0, 1, 1), (0, 2, 8), (1, 0, 3), (1, 2, 4), (2, 0, 7), (2, 1, 2), (2, 2, 6)]"
  by (simp add: np_unique_def)


lemma np_index_in_range: "0 \<le> k \<Longrightarrow> k < int n \<Longrightarrow> np_index n k = Inr (nat k)"
  by (simp add: np_index_def)

lemma np_index_error: "np_index n k = Inl e \<Longrightarrow> e = IndexError"
  by (auto simp: np_index_def split: if_splits)

lemma np_index_less: "np_index n k = Inr a \<Longrightarrow> a < n"
  by (auto simp: np_index_def split: if_splits)



lemma lat_set_shape:
  "shape2 n m lat \<Longrightarrow> lat_set lat ii jj v = Inr lat' \<Longrightarrow> shape2 n m lat'"
  by (auto simp: lat_set_def shape2_def list_all_length nth_list_update dest: np_index_less
      split: sum.splits)

lemma lat_set_in_range:
  "shape2 n m lat \<Longrightarrow> i < n \<Longrightarrow> j < m \<Longrightarrow> lat_set lat (int i) (int j) v \<noteq> Inl e"
  by (simp add: lat_set_def shape2_def list_all_length np_index_in_range)

lemma lattice_coords_error: "lattice_coords s i j = Inl e \<Longrightarrow> e = ZeroDivisionError"
  by (auto simp: lattice_coords_def Let_def split: if_splits)


lemma fill_lattice_no_IndexError:
  "shape2 n m lat \<Longrightarrow> (\<forall>(i, j) \<in> set cells. i < n \<and> j < m)
   \<Longrightarrow> fill_lattice s poly bnds tg cells lat obstacle \<noteq> Inl IndexError"
proof (induction cells arbitrary: lat obstacle)
  case Nil
  then show ?case by simp
next
  case (Cons cell cells)
  obtain i j where cell: "cell = (i, j)" by (cases cell)
  obtain b0 b1 b2 b3 where bnds: "bnds = (b0, b1, b2, b3)" by (cases bnds) auto
  from Cons.prems(2) have ij: "i < n" "j < m" and rest: "\<forall>(i, j) \<in> set cells. i < n \<and> j < m"
    by (simp_all add: cell)
  note IH1 = Cons.IH [OF Cons.prems(1) rest, unfolded bnds]
  note IH2 = Cons.IH [OF lat_set_shape [OF Cons.prems(1)] rest, unfolded bnds]
  show ?case
    unfolding cell bnds
    using IH1 IH2 lat_set_in_range [OF Cons.prems(1) ij]
    by (auto split: sum.splits if_splits dest: lattice_coords_error)
qed







lemma cells_in_range: "\<forall>(i, j) \<in> set (List.product [0..<n] [0..<m]). i < n \<and> j < m"
  by auto



lemma grid3_ibb_eq: "grid3_ibb = grid3\<lparr>IBB := True\<rparr>"
  by (simp add: grid3_ibb_def grid3_def BaseDefine_init_def no_kwargs_def kwargs_get_def cells_needed_def memory_cells_def Let_def)

lemma grid3_ibb_sel:
  "nx grid3_ibb = 3" "ny grid3_ibb = 3" "lattice grid3_ibb = [[0, 0, 0], [0, 0, 0], [0, 0, 0]]"
  "dx grid3_ibb = 1" "obstacles grid3_ibb = []" "IBB grid3_ibb"
  by (simp_all add: grid3_ibb_eq grid3_sel)

lemma coords3_ibb: "lattice_coords grid3_ibb i j = Inr (real_of_int i / 2, real_of_int j / 2)"
  by (simp add: lattice_coords_def grid3_ibb_eq grid3_full Let_def)

lemma fill_centre_ibb:
  "fill_lattice grid3_ibb centre_square (1 / 4, 3 / 4, 1 / 4, 3 / 4) 1
     (List.product [0..<nx grid3_ibb] [0..<ny grid3_ibb]) (lattice grid3_ibb) []
   = Inr ([[0, 0, 0], [0, 1, 0], [0, 0, 0]], [(1, 1)])"
  by (simp add: grid3_ibb_sel cells3 coords3_ibb is_inside_def centre_square_def lat_set_def np_index_def)

lemma c_norms:
  "linalg_norm (c ! Suc 0) = 1" "linalg_norm (c ! 2) = 1" "linalg_norm (c ! 3) = 1" "linalg_norm (c ! 4) = 1"
  "linalg_norm (c ! 5) = sqrt 2" "linalg_norm (c ! 6) = sqrt 2" "linalg_norm (c ! 7) = sqrt 2" "linalg_norm (c ! 8) = sqrt 2"
  by (simp_all add: c_def linalg_norm_def)

lemma sqrt_sixteenth: "sqrt (1 / 8) / sqrt 2 = 1 / 4"
proof -
  have "sqrt (1 / 8) / sqrt 2 = sqrt (1 / 16)"
    by (simp add: real_sqrt_divide [symmetric])
  also have "\<dots> = 1 / 4"
    by (rule real_sqrt_unique) (simp_all add: power_divide)
  finally show ?thesis .
qed

lemma node_distance_corners:
  "node_distance grid3_ibb centre_square (0, 0, 5) = Inr (Some (1 / 4))"
  "node_distance grid3_ibb centre_square (0, 2, 8) = Inr (Some (1 / 4))"
  "node_distance grid3_ibb centre_square (2, 0, 7) = Inr (Some (1 / 4))"
  "node_distance grid3_ibb centre_square (2, 2, 6) = Inr (Some (1 / 4))"
  by (simp_all add: node_distance_def coords3_ibb centre_square_def c_norms grid3_ibb_sel
      np_div_def power_divide sqrt_sixteenth)

lemma node_distance_edges:
  "node_distance grid3_ibb centre_square (0, 1, 1) = Inr (Some (sqrt (1 / 8)))"
  "node_distance grid3_ibb centre_square (1, 0, 3) = Inr (Some (sqrt (1 / 8)))"
  "node_distance grid3_ibb centre_square (1, 2, 4) = Inr (Some (sqrt (1 / 8)))"
  "node_distance grid3_ibb centre_square (2, 1, 2) = Inr (Some (sqrt (1 / 8)))"
  by (simp_all add: node_distance_def coords3_ibb centre_square_def c_norms grid3_ibb_sel
      np_div_def power_divide)

lemma area_centre: "obstacle_area grid3_ibb [[0, 0, 0], [0, 1, 0], [0, 0, 0]] 1 = 1"
  by (simp add: obstacle_area_def grid3_ibb_sel cells3)

lemma ibb_loop_appends:
  "ibb_loop s poly nodes acc = Inr r \<Longrightarrow>
     \<exists>ds. r = acc @ ds \<and> length ds = length nodes
       \<and> (\<forall>k < length nodes. node_distance s poly (nodes ! k) = Inr (ds ! k))"
proof (induction nodes arbitrary: acc)
  case Nil
  then show ?case by simp
next
  case (Cons node nodes)
  from Cons.prems obtain mdst where md: "node_distance s poly node = Inr mdst"
    and rest: "ibb_loop s poly nodes (acc @ [mdst]) = Inr r"
    by (auto split: sum.splits)
  from Cons.IH [OF rest] obtain ds where r: "r = (acc @ [mdst]) @ ds"
    and len: "length ds = length nodes"
    and nth: "\<forall>k < length nodes. node_distance s poly (nodes ! k) = Inr (ds ! k)"
    by blast
  have "node_distance s poly ((node # nodes) ! k) = Inr ((mdst # ds) ! k)"
    if "k < length (node # nodes)" for k
    using that md nth by (cases k) simp_all
  with r len show ?case by (intro exI [of _ "mdst # ds"]) simp
qed

lemma add_obstacle_ibb_centre:
  "add_obstacle uninit grid3_ibb centre_square 1 =
     Inr (grid3_ibb\<lparr>lattice := [[0, 0, 0], [0, 1, 0], [0, 0, 0]],
        obstacles := [\<lparr>polygon = centre_square, area = 1,
          boundary = [(0, 0, 5), (0, 1, 1), (0, 2, 8), (1, 0, 3), (1, 2, 4), (2, 0, 7),
                      (2, 1, 2), (2, 2, 6)],
          ibb = [uninit, Some (1 / 4), Some (sqrt (1 / 8)), Some (1 / 4), Some (sqrt (1 / 8)),
                 Some (sqrt (1 / 8)), Some (1 / 4), Some (sqrt (1 / 8)), Some (1 / 4)],
          tag = 1\<rparr>]\<rparr>)"
proof -
  have loop: "ibb_loop grid3_ibb centre_square
      [(0, 0, 5), (0, 1, 1), (0, 2, 8), (1, 0, 3), (1, 2, 4), (2, 0, 7), (2, 1, 2), (2, 2, 6)]
      [uninit]
    = Inr [uninit, Some (1 / 4), Some (sqrt (1 / 8)), Some (1 / 4), Some (sqrt (1 / 8)),
           Some (sqrt (1 / 8)), Some (1 / 4), Some (sqrt (1 / 8)), Some (1 / 4)]"
    by (simp only: ibb_loop.simps node_distance_corners node_distance_edges sum.case append.simps)
  have "add_obstacle uninit grid3_ibb centre_square 1 =
      Inr (grid3_ibb\<lparr>lattice := [[0, 0, 0], [0, 1, 0], [0, 0, 0]],
        obstacles := obstacles grid3_ibb @ [\<lparr>polygon = centre_square,
          area = obstacle_area grid3_ibb [[0, 0, 0], [0, 1, 0], [0, 0, 0]] 1,
          boundary = [(0, 0, 5), (0, 1, 1), (0, 2, 8), (1, 0, 3), (1, 2, 4), (2, 0, 7),
                      (2, 1, 2), (2, 2, 6)],
          ibb = [uninit, Some (1 / 4), Some (sqrt (1 / 8)), Some (1 / 4), Some (sqrt (1 / 8)),
                 Some (sqrt (1 / 8)), Some (1 / 4), Some (sqrt (1 / 8)), Some (1 / 4)],
          tag = 1\<rparr>]\<rparr>)"
    by (simp only: add_obstacle_def bnds_centre fill_centre_ibb boundary_centre unique_centre
        sum.case prod.case Let_def loop grid3_ibb_sel(6) if_True)
  then show ?thesis
    by (simp only: area_centre grid3_ibb_sel(5) append.simps)
qed















text \<open>
  Claim C5: with interpolated bounce-back, \<open>add_obstacle\<close> stores exactly one distance
  per boundary node, and the entry for boundary node \<open>k\<close> is that node's least distance
  to a vertex divided by \<open>dx\<close> times the norm of its direction. The code at the 3 by 3
  grid with the square around the centre node: the boundary has 8 nodes and \<open>ibb\<close> has
  9 entries. Entry 0 is the unassigned float of \<open>np.empty(1)\<close>; the distance of node
  \<open>k\<close> is entry \<open>k + 1\<close>. Entry 1 is 1/4, the distance of node 0, while the distance of
  node 1 is \<open>sqrt (1/8)\<close>.
\<close>

theorem add_obstacle_ibb_entries:
  "IBB grid3_ibb
   \<and> add_obstacle uninit grid3_ibb centre_square 1 =
     Inr (grid3_ibb\<lparr>lattice := [[0, 0, 0], [0, 1, 0], [0, 0, 0]],
        obstacles := [\<lparr>polygon = centre_square, area = 1,
          boundary = [(0, 0, 5), (0, 1, 1), (0, 2, 8), (1, 0, 3), (1, 2, 4), (2, 0, 7),
                      (2, 1, 2), (2, 2, 6)],
          ibb = [uninit, Some (1 / 4), Some (sqrt (1 / 8)), Some (1 / 4), Some (sqrt (1 / 8)),
                 Some (sqrt (1 / 8)), Some (1 / 4), Some (sqrt (1 / 8)), Some (1 / 4)],
          tag = 1\<rparr>]\<rparr>)
   \<and> node_distance grid3_ibb centre_square (0, 0, 5) = Inr (Some (1 / 4))
   \<and> node_distance grid3_ibb centre_square (0, 1, 1) = Inr (Some (sqrt (1 / 8)))
   \<and> sqrt (1 / 8) \<noteq> 1 / 4"
proof -
  have "sqrt (1 / 8) \<noteq> sqrt (1 / 16)" by simp
  moreover have "sqrt (1 / 16) = 1 / 4"
    by (rule real_sqrt_unique) (simp_all add: power_divide)
  ultimately have "sqrt (1 / 8) \<noteq> 1 / 4" by simp
  then show ?thesis
    by (simp only: add_obstacle_ibb_centre grid3_ibb_sel(6) node_distance_corners(1)
        node_distance_edges(1) simp_thms)
qed



end
